theory Spec2Isabelle
  imports Main "HOL-Library.Word" "HOL-Library.Monad_Syntax" "HOL-Library.Sublist"
begin

section \<open>Machine types and the record\<close>

text \<open>
  The repository holds two variants of the parser: \<^verbatim>\<open>src/eve_parser.c\<close> (the
  self-delimiting scanner, every numeric scan skips leading non-digits) and
  \<^verbatim>\<open>src/unnamed/part_000\<close> (fixed-width skipping between fields, validation in
  \<^verbatim>\<open>has_badval\<close>). Definitions of the first keep the source's names; definitions of
  the second carry the suffix \<open>_p0\<close>. \<^verbatim>\<open>ejday\<close>, \<^verbatim>\<open>pt_to_utc\<close> and
  \<^verbatim>\<open>parser_factory\<close> are the same in both files and are embedded once.

  \<^verbatim>\<open>unsigned int\<close> and \<^verbatim>\<open>int\<close> are taken as 32 bits wide. Unsigned arithmetic
  wraps around; so does the model of \<^verbatim>\<open>int\<close> arithmetic in \<^verbatim>\<open>parse_int\<close>
  (two's complement, as the usual compilers produce it).
\<close>

type_synonym uint8_t = "8 word"
type_synonym int8_t = "8 word"
type_synonym uint16_t = "16 word"
type_synonym uint32_t = "32 word"
type_synonym uint64_t = "64 word"
type_synonym c_int = "32 word"

text \<open>
  Modelled from the spec: \<^verbatim>\<open>struct raw_record\<close> is declared in \<^verbatim>\<open>eve_parser.h\<close>, which
  is not among the sources; the fields and their widths are those of the spec's data
  model (section 3). The field \<^verbatim>\<open>range\<close> is called \<open>range_b\<close> here; it is an
  \<^verbatim>\<open>int8_t\<close>, read with \<^const>\<open>sint\<close>.
\<close>

record raw_record =
  orderID :: uint64_t
  regionID :: uint32_t
  systemID :: uint32_t
  stationID :: uint32_t
  typeID :: uint32_t
  bid :: uint8_t
  price :: uint64_t
  volMin :: uint32_t
  volRem :: uint32_t
  volEnt :: uint32_t
  issued :: uint32_t
  duration :: uint16_t
  range_b :: int8_t
  reportedby :: uint64_t
  rtime :: uint32_t

section \<open>Epoch-day encoder and timezone corrector (both files)\<close>

definition E_JDAY :: uint32_t where "E_JDAY = 719558"
definition SEC_PER_DAY :: uint32_t where "SEC_PER_DAY = 86400"
definition SEC_PER_HOUR :: uint32_t where "SEC_PER_HOUR = 3600"
definition SEC_PER_MIN :: uint32_t where "SEC_PER_MIN = 60"

text \<open>\<^verbatim>\<open>ejday\<close>: all operations are those of \<^verbatim>\<open>unsigned int\<close>; \<open>div\<close> on words is
  the unsigned division.\<close>

definition ejday :: "uint32_t \<Rightarrow> uint32_t \<Rightarrow> uint32_t \<Rightarrow> uint32_t" where
  "ejday year month day =
     (year * 365 + year div 4 - year div 100 + year div 400
        + (month * 306 + 5) div 10 + day - 1 - E_JDAY) * SEC_PER_DAY"

definition D2006040203 :: uint32_t where "D2006040203 = 1144033200"
definition D2006102901 :: uint32_t where "D2006102901 = 1162256400"
definition D2007031103 :: uint32_t where "D2007031103 = 1173754800"

definition pt_to_utc :: "uint32_t \<Rightarrow> uint32_t" where
  "pt_to_utc pacificTime =
     (if pacificTime < D2006040203 then pacificTime + 8 * SEC_PER_HOUR
      else if pacificTime < D2006102901 then pacificTime + 7 * SEC_PER_HOUR
      else if pacificTime < D2007031103 then pacificTime + 8 * SEC_PER_HOUR
      else pacificTime + 7 * SEC_PER_HOUR)"

section \<open>Range encoder\<close>

text \<open>\<^verbatim>\<open>range_to_byte\<close> of \<^verbatim>\<open>eve_parser.c\<close> switches on an \<^verbatim>\<open>int\<close>; the argument is
  the value of that \<^verbatim>\<open>int\<close>.\<close>

definition range_to_byte :: "int \<Rightarrow> int8_t" where
  "range_to_byte r =
     (if r = - 1 then - 1
      else if r = 0 then 0
      else if r = 5 then 5
      else if r = 10 then 10
      else if r = 20 then 20
      else if r = 40 then 40
      else if r = 32767 \<or> r = 65535 then 127
      else - 2)"

text \<open>\<^verbatim>\<open>range_to_byte\<close> of \<^verbatim>\<open>part_000\<close> switches on an \<^verbatim>\<open>unsigned int\<close> and has no
  case for \<open>-1\<close>.\<close>

definition range_to_byte_p0 :: "uint32_t \<Rightarrow> int8_t" where
  "range_to_byte_p0 r =
     (if r = 0 then 0
      else if r = 5 then 5
      else if r = 10 then 10
      else if r = 20 then 20
      else if r = 40 then 40
      else if r = 32767 \<or> r = 65535 then 127
      else - 2)"

section \<open>Format dispatcher (both files)\<close>

text \<open>The function pointer returned by \<^verbatim>\<open>parser_factory\<close> is one of three; the model
  returns its name.\<close>

datatype Parser = Parse_pt_bo | Parse_pt | Parse

definition D20070101 :: uint64_t where "D20070101 = 1167609600"
definition D20071001 :: uint64_t where "D20071001 = 1191369600"

definition parser_factory :: "uint32_t \<Rightarrow> uint32_t \<Rightarrow> uint32_t \<Rightarrow> Parser" where
  "parser_factory yr mn dy =
     (let parsedTime = (ucast (ejday yr mn dy) :: uint64_t)
      in if parsedTime < D20070101 then Parse_pt_bo
         else if parsedTime < D20071001 then Parse_pt
         else Parse)"

section \<open>The order of evaluation of the arguments of \<^verbatim>\<open>ejday\<close>\<close>

text \<open>
  Both files assemble a date by \<^verbatim>\<open>ejday(scan(&str), scan(&str), scan(&str))\<close>. C does not
  fix the order in which the three arguments are evaluated, and each evaluation moves the
  cursor: the argument evaluated first takes the first number of the text. The order is a
  parameter of the model. A constructor names the arguments in the order of their
  evaluation: \<open>Year_month_day\<close> is the evaluation from left to right, \<open>Day_month_year\<close>
  the one from right to left.
\<close>

datatype arg_order =
  Year_month_day | Year_day_month | Month_year_day | Month_day_year | Day_year_month
  | Day_month_year

text \<open>\<^verbatim>\<open>ejday\<close> on the three numbers \<open>a\<close>, \<open>b\<close>, \<open>c\<close> scanned in this order from the text.\<close>

definition ejday_scanned ::
  "arg_order \<Rightarrow> uint32_t \<Rightarrow> uint32_t \<Rightarrow> uint32_t \<Rightarrow> uint32_t" where
  "ejday_scanned ord a b c =
     (case ord of
        Year_month_day \<Rightarrow> ejday a b c
      | Year_day_month \<Rightarrow> ejday a c b
      | Month_year_day \<Rightarrow> ejday b a c
      | Month_day_year \<Rightarrow> ejday c a b
      | Day_year_month \<Rightarrow> ejday b c a
      | Day_month_year \<Rightarrow> ejday c b a)"

text \<open>A line holds two timestamps; the orders at the two calls, the one for \<open>issued\<close>
  first.\<close>

type_synonym arg_orders = "arg_order \<times> arg_order"

abbreviation left_to_right :: arg_orders where
  "left_to_right \<equiv> (Year_month_day, Year_month_day)"

abbreviation right_to_left :: arg_orders where
  "right_to_left \<equiv> (Day_month_year, Day_month_year)"

section \<open>Numeric scanner of \<^verbatim>\<open>eve_parser.c\<close>\<close>

text \<open>
  A read cursor \<^verbatim>\<open>const char *str\<close> is the list of the bytes from the cursor up to,
  and without, the terminating NUL of the line: the empty list is a cursor at the
  terminator. A cursor moved beyond the terminator has left the line; the program reads
  memory it does not own there, and the model has no value for it (\<open>None\<close>).
\<close>

definition peek :: "string \<Rightarrow> char" where
  "peek str = (case str of [] \<Rightarrow> CHR 0x00 | c # _ \<Rightarrow> c)"

definition isdigit :: "char \<Rightarrow> bool" where
  "isdigit c = (c \<in> set ''0123456789'')"

text \<open>The first loop of every scanner:
  \<^verbatim>\<open>while (!isdigit(*str) && *str != '\0') str++;\<close>\<close>

fun skip_nondigits :: "string \<Rightarrow> string" where
  "skip_nondigits [] = []"
| "skip_nondigits (c # cs) =
     (if \<not> isdigit c \<and> c \<noteq> CHR 0x00 then skip_nondigits cs else c # cs)"

text \<open>The second loop:
  \<^verbatim>\<open>while (isdigit(*str)) val = val * 10 + *str++ - '0';\<close>
  in the width of \<^verbatim>\<open>val\<close>.\<close>

fun scan_digits :: "'a::len word \<Rightarrow> string \<Rightarrow> 'a word \<times> string" where
  "scan_digits val [] = (val, [])"
| "scan_digits val (c # cs) =
     (if isdigit c then scan_digits (val * 10 + of_char c - 48) cs else (val, c # cs))"

definition parse_uint64 :: "string \<Rightarrow> uint64_t \<times> string" where
  "parse_uint64 s = scan_digits 0 (skip_nondigits s)"

definition parse_uint32 :: "string \<Rightarrow> uint32_t \<times> string" where
  "parse_uint32 s = scan_digits 0 (skip_nondigits s)"

definition parse_int :: "string \<Rightarrow> c_int \<times> string" where
  "parse_int s = scan_digits 0 (skip_nondigits s)"

text \<open>The first loop of \<^verbatim>\<open>parse_range\<close>, which also stops at a minus sign.\<close>

fun skip_to_range :: "string \<Rightarrow> string" where
  "skip_to_range [] = []"
| "skip_to_range (c # cs) =
     (if \<not> isdigit c \<and> c \<noteq> CHR 0x00 \<and> c \<noteq> CHR ''-'' then skip_to_range cs else c # cs)"

text \<open>\<^verbatim>\<open>parse_range\<close> returns at the minus sign before \<^verbatim>\<open>*s = str\<close>: the caller's
  cursor is then the one it passed in.\<close>

definition parse_range :: "string \<Rightarrow> int8_t \<times> string" where
  "parse_range s =
     (let str = skip_to_range s
      in if peek str = CHR ''-'' then (- 1, s)
         else (let (v, s') = parse_int str in (range_to_byte (sint v), s')))"

section \<open>Record assembler of \<^verbatim>\<open>eve_parser.c\<close>\<close>

text \<open>The value of a \<^verbatim>\<open>char\<close> as an \<^verbatim>\<open>int\<close> (a signed \<^verbatim>\<open>char\<close>, as on x86).\<close>

definition char_int :: "char \<Rightarrow> int" where
  "char_int c = (if (of_char c :: int) < 128 then of_char c else of_char c - 256)"

text \<open>
  Lines 153 to 159, the optional cents: the amount added to \<^verbatim>\<open>rec->price\<close> and the
  cursor afterwards. \<^verbatim>\<open>(*str++ - '0') * 10\<close> is computed as an \<^verbatim>\<open>int\<close> and converted
  to \<^verbatim>\<open>uint64_t\<close> by the addition. When the point is the last byte of the line,
  \<^verbatim>\<open>*str++\<close> reads the terminator and moves the cursor beyond it.
\<close>

definition cents :: "string \<Rightarrow> (uint64_t \<times> string) option" where
  "cents str =
     (if peek str = CHR ''.'' then
        (case tl str of
           [] \<Rightarrow> None
         | c # str' \<Rightarrow>
             (let tens = (of_int ((char_int c - 48) * 10) :: uint64_t)
              in if isdigit (peek str')
                 then Some (tens + of_int (char_int (peek str') - 48), tl str')
                 else Some (tens, str')))
      else Some (0, str))"

text \<open>
  Lines 165 to 173 and again 187 to 195, the assembly of a timestamp. The three scans
  that are the arguments of \<^verbatim>\<open>ejday\<close> take the numbers \<open>a\<close>, \<open>b\<close>, \<open>c\<close> of the text in
  the order of their evaluation.
\<close>

definition timestamp :: "arg_order \<Rightarrow> string \<Rightarrow> uint32_t \<times> string" where
  "timestamp ord str0 =
     (let (a, str1) = parse_int str0;
          (b, str2) = parse_int str1;
          (c, str3) = parse_int str2;
          t0 = ejday_scanned ord a b c;
          (hour, str4) = parse_int str3;
          t1 = t0 + hour * SEC_PER_HOUR;
          (minute, str5) = parse_int str4;
          t2 = t1 + minute * SEC_PER_MIN;
          (second, str6) = parse_int str5;
          t3 = t2 + second
      in if isdigit (peek str6) \<and> char_int (peek str6) - 48 > 5
         then (t3 + 1, str6) else (t3, str6))"

definition parser :: "arg_orders \<Rightarrow> string \<Rightarrow> raw_record option" where
  "parser ords str0 =
     (let (v_orderID, str1) = parse_uint64 str0;
          (v_regionID, str2) = parse_uint32 str1;
          (v_systemID, str3) = parse_uint32 str2;
          (v_stationID, str4) = parse_uint32 str3;
          (v_typeID, str5) = parse_uint32 str4;
          (v_bid, str6) = parse_int str5;
          (v_whole, str7) = parse_uint64 str6
      in case cents str7 of
           None \<Rightarrow> None
         | Some (v_cents, str8) \<Rightarrow>
             (let (v_volMin, str9) = parse_uint32 str8;
                  (v_volRem, str10) = parse_uint32 str9;
                  (v_volEnt, str11) = parse_uint32 str10;
                  (v_issued, str12) = timestamp (fst ords) str11;
                  (v_duration, str13) = parse_uint32 str12;
                  (_, str14) = parse_int str13;
                  (_, str15) = parse_int str14;
                  (_, str16) = parse_int str15;
                  (v_range, str17) = parse_range str16;
                  (v_reportedby, str18) = parse_uint64 str17;
                  (v_rtime, _) = timestamp (snd ords) str18
              in Some \<lparr> orderID = v_orderID, regionID = v_regionID, systemID = v_systemID,
                        stationID = v_stationID, typeID = v_typeID, bid = ucast v_bid,
                        price = v_whole * 100 + v_cents,
                        volMin = v_volMin, volRem = v_volRem, volEnt = v_volEnt,
                        issued = v_issued, duration = ucast v_duration,
                        range_b = v_range, reportedby = v_reportedby, rtime = v_rtime \<rparr>))"

section \<open>Per-line entry points of \<^verbatim>\<open>eve_parser.c\<close>\<close>

text \<open>An entry point returns its status and leaves the record in \<^verbatim>\<open>*rec\<close>; the model
  returns both.\<close>

definition parse_pt_bo :: "arg_orders \<Rightarrow> string \<Rightarrow> (int \<times> raw_record) option" where
  "parse_pt_bo ords str =
     (case parser ords str of
        None \<Rightarrow> None
      | Some rec0 \<Rightarrow>
          if bid rec0 > 1 then Some (1, rec0)
          else
            (let rec1 = (if bid rec0 = 1 then rec0\<lparr>range_b := range_to_byte (- 1)\<rparr> else rec0)
             in if range_b rec1 = - 2 \<or> issued rec1 > rtime rec1 then Some (1, rec1)
                else Some (0, rec1\<lparr>issued := pt_to_utc (issued rec1),
                                   rtime := pt_to_utc (rtime rec1)\<rparr>)))"

definition parse_pt :: "arg_orders \<Rightarrow> string \<Rightarrow> (int \<times> raw_record) option" where
  "parse_pt ords str =
     (case parser ords str of
        None \<Rightarrow> None
      | Some rec0 \<Rightarrow>
          if range_b rec0 = - 2 \<or> issued rec0 > rtime rec0 then Some (1, rec0)
          else Some (0, rec0\<lparr>issued := pt_to_utc (issued rec0),
                             rtime := pt_to_utc (rtime rec0)\<rparr>))"

definition parse :: "arg_orders \<Rightarrow> string \<Rightarrow> (int \<times> raw_record) option" where
  "parse ords str =
     (case parser ords str of
        None \<Rightarrow> None
      | Some rec0 \<Rightarrow>
          if range_b rec0 = - 2 \<or> issued rec0 > rtime rec0 then Some (1, rec0)
          else Some (0, rec0))"

section \<open>The variant of \<^verbatim>\<open>part_000\<close>\<close>

text \<open>\<^verbatim>\<open>parse_uint64\<close> of \<^verbatim>\<open>part_000\<close> has the digit loop only: it skips nothing.\<close>

definition parse_uint64_p0 :: "string \<Rightarrow> uint64_t \<times> string" where
  "parse_uint64_p0 s = scan_digits 0 s"

text \<open>\<^verbatim>\<open>while (isdigit(**s)) *s += 1;\<close>\<close>

fun skip_digits :: "string \<Rightarrow> string" where
  "skip_digits [] = []"
| "skip_digits (c # cs) = (if isdigit c then skip_digits cs else c # cs)"

definition parse_range_p0 :: "string \<Rightarrow> int8_t \<times> string" where
  "parse_range_p0 s =
     (if peek s = CHR ''-'' then (- 1, skip_digits (tl s))
      else (let (v, s') = parse_uint64_p0 s in (range_to_byte_p0 (ucast v), s')))"

text \<open>\<^verbatim>\<open>parse_datetime\<close>; the three scans that are the arguments of \<^verbatim>\<open>ejday\<close> take
  \<open>a\<close>, \<open>b\<close>, \<open>c\<close> in the order of their evaluation, as in \<^verbatim>\<open>eve_parser.c\<close>.\<close>

definition parse_datetime_p0 :: "arg_order \<Rightarrow> string \<Rightarrow> uint32_t \<times> string" where
  "parse_datetime_p0 ord s0 =
     (let (a, s1) = parse_uint64_p0 s0;
          (b, s2) = parse_uint64_p0 s1;
          (c, s3) = parse_uint64_p0 s2;
          val0 = ejday_scanned ord (ucast a) (ucast b) (ucast c);
          (hour, s4) = parse_uint64_p0 s3;
          val1 = val0 + ucast hour * SEC_PER_HOUR;
          (minute, s5) = parse_uint64_p0 s4;
          val2 = val1 + ucast minute * SEC_PER_MIN;
          (second, s6) = parse_uint64_p0 s5;
          val3 = val2 + ucast second
      in if peek s6 \<noteq> CHR ''.'' then (val3, s6)
         else
           (let s7 = tl s6;
                val4 = (if isdigit (peek s7) \<and> char_int (peek s7) - 48 > 5
                        then val3 + 1 else val3)
            in (val4, skip_digits s7)))"

text \<open>\<^verbatim>\<open>str += n\<close>: the cursor has to stay on the line or on its terminator.\<close>

definition advance :: "nat \<Rightarrow> string \<Rightarrow> string option" where
  "advance n str = (if n \<le> length str then Some (drop n str) else None)"

text \<open>A line of the shape \<^verbatim>\<open>v = parse_uint64(&str); str += 3;\<close>\<close>

definition field_p0 :: "string \<Rightarrow> (uint64_t \<times> string) option" where
  "field_p0 str =
     (let (v, str') = parse_uint64_p0 str in map_option (Pair v) (advance 3 str'))"

text \<open>The optional cents of \<^verbatim>\<open>part_000\<close>: the digits are converted to
  \<^verbatim>\<open>uint32_t\<close> before they are scaled and added.\<close>

definition cents_p0 :: "string \<Rightarrow> (uint64_t \<times> string) option" where
  "cents_p0 str =
     (if peek str = CHR ''.'' then
        (case tl str of
           [] \<Rightarrow> None
         | c # str' \<Rightarrow>
             (let tens = (ucast ((of_int (char_int c - 48) :: uint32_t) * 10) :: uint64_t)
              in if isdigit (peek str')
                 then Some (tens + ucast (of_int (char_int (peek str') - 48) :: uint32_t),
                            tl str')
                 else Some (tens, str')))
      else Some (0, str))"

text \<open>\<^verbatim>\<open>parser\<close> of \<^verbatim>\<open>part_000\<close>. Its first statement, \<^verbatim>\<open>rec.bid = 3\<close>, is overwritten by
  the scan of the sixth field before the record can be returned. The other fields are
  scanned by \<^verbatim>\<open>parse_uint64\<close> and cast to their widths.\<close>

definition parser_p0 :: "arg_orders \<Rightarrow> string \<Rightarrow> raw_record option" where
  "parser_p0 ords str0 = do {
      let str0' = (if peek str0 = CHR 0x22 then tl str0 else str0);
      (v_orderID, str1) \<leftarrow> field_p0 str0';
      (v_regionID, str2) \<leftarrow> field_p0 str1;
      (v_systemID, str3) \<leftarrow> field_p0 str2;
      (v_stationID, str4) \<leftarrow> field_p0 str3;
      (v_typeID, str5) \<leftarrow> field_p0 str4;
      (v_bid, str6) \<leftarrow> field_p0 str5;
      let (v_whole, str7) = parse_uint64_p0 str6;
      (v_cents, str8) \<leftarrow> cents_p0 str7;
      str9 \<leftarrow> advance 3 str8;
      (v_volMin, str10) \<leftarrow> field_p0 str9;
      (v_volRem, str11) \<leftarrow> field_p0 str10;
      (v_volEnt, str12) \<leftarrow> field_p0 str11;
      let (v_issued, str13) = parse_datetime_p0 (fst ords) str12;
      str14 \<leftarrow> advance 3 str13;
      let (v_duration, str15) = parse_uint64_p0 str14;
      let (v_hour, str16) = parse_uint64_p0 str15;
      let (v_min, str17) = parse_uint64_p0 str16;
      let (v_sec, str18) = parse_uint64_p0 str17;
      let str19 = (if peek str18 = CHR ''.'' then snd (parse_uint64_p0 (tl str18)) else str18);
      str20 \<leftarrow> advance 3 str19;
      let (v_range, str21) = parse_range_p0 str20;
      str22 \<leftarrow> advance 3 str21;
      (v_reportedby, str23) \<leftarrow> field_p0 str22;
      let (v_rtime, str24) = parse_datetime_p0 (snd ords) str23;
      Some \<lparr> orderID = v_orderID, regionID = ucast v_regionID, systemID = ucast v_systemID,
             stationID = ucast v_stationID, typeID = ucast v_typeID, bid = ucast v_bid,
             price = v_whole * 100 + v_cents,
             volMin = ucast v_volMin, volRem = ucast v_volRem, volEnt = ucast v_volEnt,
             issued = v_issued, duration = ucast v_duration,
             range_b = v_range, reportedby = v_reportedby, rtime = v_rtime \<rparr>
    }"

text \<open>\<^verbatim>\<open>has_badval\<close>: 0 on success, the type of the bad value otherwise.\<close>

definition has_badval :: "raw_record \<Rightarrow> int" where
  "has_badval rec =
     (if issued rec > rtime rec then 1
      else if bid rec > 1 then 2
      else if range_b rec = - 2 then 3
      else 0)"

definition parse_pt_bo_p0 :: "arg_orders \<Rightarrow> string \<Rightarrow> (int \<times> raw_record) option" where
  "parse_pt_bo_p0 ords str =
     (case parser_p0 ords str of
        None \<Rightarrow> None
      | Some rec0 \<Rightarrow>
          (let rec1 = (if bid rec0 = 1 then rec0\<lparr>range_b := - 1\<rparr> else rec0);
               rec2 = rec1\<lparr>issued := pt_to_utc (issued rec1)\<rparr>;
               rec3 = rec2\<lparr>rtime := pt_to_utc (rtime rec2)\<rparr>
           in Some (has_badval rec3, rec3)))"

definition parse_pt_p0 :: "arg_orders \<Rightarrow> string \<Rightarrow> (int \<times> raw_record) option" where
  "parse_pt_p0 ords str =
     (case parser_p0 ords str of
        None \<Rightarrow> None
      | Some rec0 \<Rightarrow>
          (let rec1 = rec0\<lparr>issued := pt_to_utc (issued rec0)\<rparr>;
               rec2 = rec1\<lparr>rtime := pt_to_utc (rtime rec1)\<rparr>
           in Some (has_badval rec2, rec2)))"

definition parse_p0 :: "arg_orders \<Rightarrow> string \<Rightarrow> (int \<times> raw_record) option" where
  "parse_p0 ords str =
     (case parser_p0 ords str of
        None \<Rightarrow> None
      | Some rec0 \<Rightarrow> Some (has_badval rec0, rec0))"

section \<open>Notions of the specification\<close>

text \<open>The value of a decimal digit and of a run of decimal digits, as natural numbers.\<close>

definition digit_value :: "char \<Rightarrow> nat" where
  "digit_value c = of_char c - 48"

definition decimal :: "string \<Rightarrow> nat" where
  "decimal ds = foldl (\<lambda>v c. v * 10 + digit_value c) 0 ds"

text \<open>A separator byte: what the scanners of \<^verbatim>\<open>eve_parser.c\<close> skip.\<close>

definition separator :: "char \<Rightarrow> bool" where
  "separator c = (\<not> isdigit c \<and> c \<noteq> CHR 0x00)"

text \<open>The four segments the specification gives the timezone corrector, numbered from 0.\<close>

definition pt_segment :: "uint32_t \<Rightarrow> nat" where
  "pt_segment t =
     (if t < 1144033200 then 0 else if t < 1162256400 then 1
      else if t < 1173754800 then 2 else 3)"

text \<open>
  The reference the specification names for the epoch-day encoder: the seconds from
  1970-01-01 00:00:00 to the midnight that begins a date of the proleptic Gregorian
  calendar (years from 1970 on), counted year by year and month by month.
\<close>

definition leap_year :: "int \<Rightarrow> bool" where
  "leap_year y =
     (if y mod 400 = 0 then True else if y mod 100 = 0 then False else y mod 4 = 0)"

definition days_in_year :: "int \<Rightarrow> int" where
  "days_in_year y = (if leap_year y then 366 else 365)"

definition days_in_month :: "int \<Rightarrow> int \<Rightarrow> int" where
  "days_in_month y m =
     (if m = 2 then (if leap_year y then 29 else 28)
      else if m \<in> {4, 6, 9, 11} then 30 else 31)"

definition gregorian_epoch_seconds :: "int \<Rightarrow> int \<Rightarrow> int \<Rightarrow> int" where
  "gregorian_epoch_seconds y m d =
     86400 * ((\<Sum>k\<leftarrow>[1970..y - 1]. days_in_year k) + (\<Sum>j\<leftarrow>[1..m - 1]. days_in_month y j)
              + (d - 1))"

section \<open>Input lines used below\<close>

text \<open>Lines for \<^verbatim>\<open>eve_parser.c\<close>: a sell order, a buy order with a range outside the
  table, a line with \<open>bid = 2\<close>, a buy order whose report precedes the issue, a line with
  fractional seconds and a line with the range \<open>-1\<close>.\<close>

definition line_sell :: string where
  "line_sell = ''1234567,10000002,30000142,60003760,34,0,1234.56,1,500,1000,2006-01-15 10:00:00,90 days 00:00:00,32767,0,2006-01-15 11:30:00''"


definition line_bid2 :: string where
  "line_bid2 = ''1234567,10000002,30000142,60003760,34,2,1234.56,1,500,1000,2006-01-15 10:00:00,90 days 00:00:00,32767,0,2006-01-15 11:30:00''"

definition line_late :: string where
  "line_late = ''1234567,10000002,30000142,60003760,34,1,1234.56,1,500,1000,2006-01-15 10:00:00,90 days 00:00:00,32767,0,2006-01-15 09:30:00''"

definition line_frac :: string where
  "line_frac = ''1234567,10000002,30000142,60003760,34,0,1234.56,1,500,1000,2006-01-15 10:00:00.9,90 days 00:00:00,32767,0,2006-01-15 11:30:00.9''"

definition line_minus :: string where
  "line_minus = ''1234567,10000002,30000142,60003760,34,0,1234.56,1,500,1000,2006-01-15 10:00:00,90 days 00:00:00,-1,0,2006-01-15 11:30:00''"

text \<open>Lines for \<^verbatim>\<open>part_000\<close>, whose fields are three bytes apart and whose timestamps
  are read by \<^verbatim>\<open>parse_datetime\<close> up to the first non-digit: a sell order, a buy order
  with a range outside the table, a line with \<open>bid = 2\<close>, a line whose report precedes the
  issue, and a sell order with a range outside the table.\<close>

definition p0_sell :: string where
  \<open>p0_sell = ''"1","2","3","4","5","0","7.25","8","9","10","2006","90","0","11","2007"''\<close>


definition p0_bid2 :: string where
  \<open>p0_bid2 = ''"1","2","3","4","5","2","7.25","8","9","10","2006","90","0","11","2007"''\<close>

definition p0_late :: string where
  \<open>p0_late = ''"1","2","3","4","5","0","7.25","8","9","10","2007","90","0","11","2006"''\<close>

definition p0_range7 :: string where
  \<open>p0_range7 = ''"1","2","3","4","5","0","7.25","8","9","10","2006","90","7","11","2007"''\<close>

text \<open>The records assembled from these lines (shown below), as functions of the two
  timestamps, which depend on the order of evaluation.\<close>

definition rec_sell :: "uint32_t \<Rightarrow> uint32_t \<Rightarrow> raw_record" where
  "rec_sell i t = \<lparr> orderID = 1234567, regionID = 10000002, systemID = 30000142,
      stationID = 60003760, typeID = 34, bid = 0, price = 123456, volMin = 1, volRem = 500,
      volEnt = 1000, issued = i, duration = 90, range_b = 127, reportedby = 0, rtime = t \<rparr>"


definition rec_bid2 :: "uint32_t \<Rightarrow> uint32_t \<Rightarrow> raw_record" where
  "rec_bid2 i t = (rec_sell i t)\<lparr>bid := 2\<rparr>"

definition rec_late :: "uint32_t \<Rightarrow> uint32_t \<Rightarrow> raw_record" where
  "rec_late i t = (rec_sell i t)\<lparr>bid := 1\<rparr>"

definition rec_frac :: "uint32_t \<Rightarrow> uint32_t \<Rightarrow> raw_record" where
  "rec_frac i t = (rec_sell i t)\<lparr>duration := 9, range_b := 0, reportedby := 32767\<rparr>"

definition rec_minus :: "uint32_t \<Rightarrow> uint32_t \<Rightarrow> raw_record" where
  "rec_minus i t = (rec_sell i t)\<lparr>range_b := - 1, reportedby := 1\<rparr>"

definition p0_rec_sell :: "uint32_t \<Rightarrow> uint32_t \<Rightarrow> raw_record" where
  "p0_rec_sell i t = \<lparr> orderID = 1, regionID = 2, systemID = 3, stationID = 4, typeID = 5,
      bid = 0, price = 725, volMin = 8, volRem = 9, volEnt = 10, issued = i, duration = 90,
      range_b = 0, reportedby = 11, rtime = t \<rparr>"


definition p0_rec_bid2 :: "uint32_t \<Rightarrow> uint32_t \<Rightarrow> raw_record" where
  "p0_rec_bid2 i t = (p0_rec_sell i t)\<lparr>bid := 2\<rparr>"

definition p0_rec_range7 :: "uint32_t \<Rightarrow> uint32_t \<Rightarrow> raw_record" where
  "p0_rec_range7 i t = (p0_rec_sell i t)\<lparr>range_b := - 2\<rparr>"

text \<open>A line whose last byte is a point: the only lines on which the cursor of
  \<^verbatim>\<open>eve_parser.c\<close> can leave the line (at the cents).\<close>

definition ends_with_point :: "string \<Rightarrow> bool" where
  "ends_with_point s = (s \<noteq> [] \<and> last s = CHR ''.'')"

text \<open>
  The cursor at which \<^verbatim>\<open>parser\<close> of \<^verbatim>\<open>eve_parser.c\<close> calls \<^verbatim>\<open>parse_range\<close> (line 182):
  the scans of lines 146 to 179, with their values dropped.
\<close>

definition cursor_at_range :: "arg_orders \<Rightarrow> string \<Rightarrow> string option" where
  "cursor_at_range ords str0 =
     (let (_, str1) = parse_uint64 str0;
          (_, str2) = parse_uint32 str1;
          (_, str3) = parse_uint32 str2;
          (_, str4) = parse_uint32 str3;
          (_, str5) = parse_uint32 str4;
          (_, str6) = parse_int str5;
          (_, str7) = parse_uint64 str6
      in case cents str7 of
           None \<Rightarrow> None
         | Some (_, str8) \<Rightarrow>
             (let (_, str9) = parse_uint32 str8;
                  (_, str10) = parse_uint32 str9;
                  (_, str11) = parse_uint32 str10;
                  (_, str12) = timestamp (fst ords) str11;
                  (_, str13) = parse_uint32 str12;
                  (_, str14) = parse_int str13;
                  (_, str15) = parse_int str14;
                  (_, str16) = parse_int str15
              in Some str16))"




definition arg_orders_all :: "arg_order list" where
  "arg_orders_all =
     [Year_month_day, Year_day_month, Month_year_day, Month_day_year, Day_year_month,
      Day_month_year]"

section \<open>Properties of the scanners\<close>

lemma isdigit_of_char: "isdigit c \<Longrightarrow> 48 \<le> (of_char c :: nat) \<and> (of_char c :: nat) \<le> 57"
  by (auto simp: isdigit_def)

text \<open>The digit loop leaves the cursor on a byte that is not a digit.\<close>

lemma scan_digits_stops: "\<not> isdigit (peek (snd (scan_digits v s)))"
  by (induction s arbitrary: v) (simp_all add: peek_def isdigit_def)

lemma parse_int_stops: "\<not> isdigit (peek (snd (parse_int s)))"
  by (simp add: parse_int_def scan_digits_stops)

lemma skip_nondigits_separators:
  "\<forall>c\<in>set pre. separator c \<Longrightarrow> skip_nondigits (pre @ rest) = skip_nondigits rest"
  by (induction pre) (simp_all add: separator_def)

lemma skip_nondigits_digit: "isdigit (peek s) \<Longrightarrow> skip_nondigits s = s"
  by (cases s) (simp_all add: peek_def)

lemma skip_to_range_minus:
  "\<forall>c\<in>set pre. separator c \<and> c \<noteq> CHR ''-'' \<Longrightarrow>
     skip_to_range (pre @ CHR ''-'' # rest) = CHR ''-'' # rest"
  by (induction pre) (simp_all add: separator_def)

lemma digit_step:
  assumes "isdigit c"
  shows "(of_nat a * 10 + of_char c - 48 :: 'a::len word) = of_nat (a * 10 + digit_value c)"
proof -
  have "48 \<le> (of_char c :: nat)" using assms by (simp add: isdigit_of_char)
  then have "(of_char c :: nat) = digit_value c + 48" by (simp add: digit_value_def)
  then have "(of_char c :: 'a word) = of_nat (digit_value c + 48)"
    by (metis of_nat_of_char)
  then show ?thesis by simp
qed

text \<open>On a run of digits the loop computes the decimal value of the run, in the width of
  the accumulator.\<close>

lemma scan_digits_run:
  "\<forall>c\<in>set ds. isdigit c \<Longrightarrow> \<not> isdigit (peek rest) \<Longrightarrow>
     scan_digits (of_nat a :: 'a::len word) (ds @ rest)
       = (of_nat (foldl (\<lambda>v c. v * 10 + digit_value c) a ds), rest)"
proof (induction ds arbitrary: a)
  case Nil
  then show ?case by (cases rest) (simp_all add: peek_def)
next
  case (Cons c ds)
  from Cons.prems have c: "isdigit c" and ds: "\<forall>c\<in>set ds. isdigit c" by simp_all
  have "scan_digits (of_nat a :: 'a word) ((c # ds) @ rest)
      = scan_digits (of_nat a * 10 + of_char c - 48) (ds @ rest)"
    using c by simp
  also have "\<dots> = scan_digits (of_nat (a * 10 + digit_value c)) (ds @ rest)"
    by (simp only: digit_step [OF c])
  also have "\<dots> = (of_nat (foldl (\<lambda>v c. v * 10 + digit_value c) (a * 10 + digit_value c) ds), rest)"
    using Cons.IH [of "a * 10 + digit_value c"] ds Cons.prems by blast
  finally show ?case by simp
qed

lemma scan_digits_decimal:
  "\<forall>c\<in>set ds. isdigit c \<Longrightarrow> \<not> isdigit (peek rest) \<Longrightarrow>
     scan_digits (0 :: 'a::len word) (ds @ rest) = (of_nat (decimal ds), rest)"
  using scan_digits_run [of ds rest 0] by (simp add: decimal_def)

lemma parse_uint64_field:
  assumes "\<forall>c\<in>set pre. separator c" and "ds \<noteq> []" and "\<forall>c\<in>set ds. isdigit c"
    and "\<not> isdigit (peek rest)"
  shows "parse_uint64 (pre @ ds @ rest) = (of_nat (decimal ds), rest)"
proof -
  have "isdigit (peek (ds @ rest))" using assms(2,3) by (cases ds) (simp_all add: peek_def)
  then have "skip_nondigits (pre @ ds @ rest) = ds @ rest"
    using assms(1) by (simp add: skip_nondigits_separators skip_nondigits_digit)
  then show ?thesis using assms(3,4) by (simp add: parse_uint64_def scan_digits_decimal)
qed

lemma parse_range_minus:
  assumes "\<forall>c\<in>set pre. separator c \<and> c \<noteq> CHR ''-''"
  shows "parse_range (pre @ CHR ''-'' # rest) = (- 1, pre @ CHR ''-'' # rest)"
  using assms by (simp add: parse_range_def skip_to_range_minus peek_def)

lemma parse_range_p0_minus: "parse_range_p0 (CHR ''-'' # rest) = (- 1, skip_digits rest)"
  by (simp add: parse_range_p0_def peek_def)

section \<open>Timezone corrector\<close>

lemma pt_to_utc_cases:
  "pt_to_utc t = t + (if unat t < 1144033200 then 28800 else if unat t < 1162256400 then 25200
      else if unat t < 1173754800 then 28800 else 25200)"
  by (simp add: pt_to_utc_def D2006040203_def D2006102901_def D2007031103_def SEC_PER_HOUR_def
      word_less_nat_alt)

lemma pt_segment_nat:
  "pt_segment t = (if unat t < 1144033200 then 0 else if unat t < 1162256400 then 1
      else if unat t < 1173754800 then 2 else 3)"
  by (simp add: pt_segment_def word_less_nat_alt)

lemma pt_to_utc_segments:
  "(t < 1144033200 \<longrightarrow> pt_to_utc t = t + 8 * 3600) \<and>
   (1144033200 \<le> t \<and> t < 1162256400 \<longrightarrow> pt_to_utc t = t + 7 * 3600) \<and>
   (1162256400 \<le> t \<and> t < 1173754800 \<longrightarrow> pt_to_utc t = t + 8 * 3600) \<and>
   (1173754800 \<le> t \<longrightarrow> pt_to_utc t = t + 7 * 3600)"
  by (simp add: pt_to_utc_cases word_less_nat_alt word_le_nat_alt)

lemma pt_to_utc_same_segment:
  "pt_segment a = pt_segment b \<longrightarrow> pt_to_utc a - a = pt_to_utc b - b"
  by (simp add: pt_to_utc_cases pt_segment_nat)

lemma pt_to_utc_unat:
  "unat t + 8 * 3600 < 2 ^ 32 \<longrightarrow>
      unat (pt_to_utc t) = unat t + (if pt_segment t \<in> {0, 2} then 8 * 3600 else 7 * 3600)"
proof
  assume b: "unat t + 8 * 3600 < 2 ^ 32"
  have u: "unat (t + k) = unat t + unat k" if "unat k \<le> 28800" for k :: uint32_t
  proof -
    have "unat t + unat k < 2 ^ LENGTH(32)" using b that by simp
    then show ?thesis by (simp only: unat_add_lem [THEN iffD1])
  qed
  show "unat (pt_to_utc t) = unat t + (if pt_segment t \<in> {0, 2} then 8 * 3600 else 7 * 3600)"
    by (simp add: pt_to_utc_cases pt_segment_nat u)
qed

text \<open>The correction does not keep the order of two timestamps on either side of the first
  boundary.\<close>

lemma pt_to_utc_not_monotone:
  "(1144033199 :: uint32_t) < 1144033200 \<and> pt_to_utc 1144033200 < pt_to_utc 1144033199"
  by (simp add: pt_to_utc_cases)

text \<open>
  C7. \<^verbatim>\<open>pt_to_utc\<close> is piecewise constant: an input below 1144033200 gains 8 hours, an
  input from 1144033200 up to 1162256400 gains 7 hours, an input from 1162256400 up to
  1173754800 gains 8 hours, an input at or above 1173754800 gains 7 hours; two inputs of
  the same segment receive the same offset. The addition is that of \<^verbatim>\<open>uint32_t\<close>; for
  an input more than eight hours below \<open>2 ^ 32\<close> it is the addition of numbers.
\<close>

theorem pt_to_utc_piecewise:
  "(t < 1144033200 \<longrightarrow> pt_to_utc t = t + 8 * 3600) \<and>
   (1144033200 \<le> t \<and> t < 1162256400 \<longrightarrow> pt_to_utc t = t + 7 * 3600) \<and>
   (1162256400 \<le> t \<and> t < 1173754800 \<longrightarrow> pt_to_utc t = t + 8 * 3600) \<and>
   (1173754800 \<le> t \<longrightarrow> pt_to_utc t = t + 7 * 3600) \<and>
   (pt_segment a = pt_segment b \<longrightarrow> pt_to_utc a - a = pt_to_utc b - b) \<and>
   (unat t + 8 * 3600 < 2 ^ 32 \<longrightarrow>
      unat (pt_to_utc t) = unat t + (if pt_segment t \<in> {0, 2} then 8 * 3600 else 7 * 3600))"
  using pt_to_utc_segments [of t] pt_to_utc_same_segment [of a b] pt_to_utc_unat [of t]
  by blast

theorem pt_to_utc_piecewise_witness:
  "(1137319200 :: uint32_t) < 1144033200 \<and> pt_to_utc 1137319200 = 1137319200 + 8 * 3600 \<and>
   (1144033200 :: uint32_t) \<le> 1150000000 \<and> (1150000000 :: uint32_t) < 1162256400 \<and>
   pt_to_utc 1150000000 = 1150000000 + 7 * 3600 \<and>
   (1162256400 :: uint32_t) \<le> 1165000000 \<and> (1165000000 :: uint32_t) < 1173754800 \<and>
   pt_to_utc 1165000000 = 1165000000 + 8 * 3600 \<and>
   (1173754800 :: uint32_t) \<le> 1180000000 \<and> pt_to_utc 1180000000 = 1180000000 + 7 * 3600 \<and>
   pt_segment 1150000000 = pt_segment 1160000000 \<and>
   pt_to_utc 1150000000 - 1150000000 = pt_to_utc 1160000000 - 1160000000 \<and>
   unat (1137319200 :: uint32_t) + 8 * 3600 < 2 ^ 32 \<and>
   unat (pt_to_utc 1137319200) = 1137348000"
  using pt_to_utc_piecewise [of 1137319200 1150000000 1160000000]
    pt_to_utc_piecewise [of 1150000000 0 0]
    pt_to_utc_piecewise [of 1165000000 0 0]
    pt_to_utc_piecewise [of 1180000000 0 0]
  by (simp add: pt_segment_def)

section \<open>Range encoder\<close>

lemma range_to_byte_table:
  "range_to_byte (- 1) = - 1 \<and> range_to_byte 0 = 0 \<and> range_to_byte 5 = 5 \<and>
   range_to_byte 10 = 10 \<and> range_to_byte 20 = 20 \<and> range_to_byte 40 = 40 \<and>
   range_to_byte 32767 = 127 \<and> range_to_byte 65535 = 127"
  by (simp add: range_to_byte_def)

lemma range_to_byte_other:
  "r \<notin> {- 1, 0, 5, 10, 20, 40, 32767, 65535} \<longrightarrow> range_to_byte r = - 2"
  by (simp add: range_to_byte_def)

text \<open>On its \<^verbatim>\<open>unsigned int\<close> argument the encoder of \<^verbatim>\<open>part_000\<close> is the encoder of
  \<^verbatim>\<open>eve_parser.c\<close>.\<close>

lemma range_to_byte_p0_agrees: "range_to_byte_p0 u = range_to_byte (uint u)"
proof -
  have n: "uint u \<noteq> - 1" using uint_ge_0 [of u] by linarith
  have e: "(uint u = uint k) = (u = k)" for k :: uint32_t
    by (simp add: word_uint_eq_iff)
  show ?thesis
    using e [of 0] e [of 5] e [of 10] e [of 20] e [of 40] e [of 32767] e [of 65535] n
    by (simp add: range_to_byte_p0_def range_to_byte_def)
qed

text \<open>
  C6. The range encoder of \<^verbatim>\<open>eve_parser.c\<close> maps \<open>-1\<close> to \<open>-1\<close>, 0 to 0, 5 to 5, 10 to 10,
  20 to 20, 40 to 40, 32767 and 65535 to 127, and every other integer to the invalid
  sentinel \<open>-2\<close>. A minus sign that leads the text of the range field is recognised before
  any digit is scanned and gives \<open>-1\<close>, whatever follows it: in \<^verbatim>\<open>eve_parser.c\<close> after
  the separators before it, in \<^verbatim>\<open>part_000\<close> at the cursor. The encoder of \<^verbatim>\<open>part_000\<close>
  takes an \<^verbatim>\<open>unsigned int\<close> and agrees with this lookup on it.
\<close>

theorem range_encoder_lookup:
  "range_to_byte (- 1) = - 1 \<and> range_to_byte 0 = 0 \<and> range_to_byte 5 = 5 \<and>
   range_to_byte 10 = 10 \<and> range_to_byte 20 = 20 \<and> range_to_byte 40 = 40 \<and>
   range_to_byte 32767 = 127 \<and> range_to_byte 65535 = 127 \<and>
   (r \<notin> {- 1, 0, 5, 10, 20, 40, 32767, 65535} \<longrightarrow> range_to_byte r = - 2) \<and>
   ((\<forall>c\<in>set pre. separator c \<and> c \<noteq> CHR ''-'') \<longrightarrow>
      fst (parse_range (pre @ CHR ''-'' # rest)) = - 1) \<and>
   fst (parse_range_p0 (CHR ''-'' # rest)) = - 1 \<and>
   range_to_byte_p0 u = range_to_byte (uint u)"
  using range_to_byte_table range_to_byte_other [of r] parse_range_minus [of pre rest]
    parse_range_p0_minus [of rest] range_to_byte_p0_agrees [of u]
  by simp

theorem range_encoder_lookup_witness:
  "(7 :: int) \<notin> {- 1, 0, 5, 10, 20, 40, 32767, 65535} \<and> range_to_byte 7 = - 2 \<and>
   list_all (\<lambda>c. separator c \<and> c \<noteq> CHR ''-'') '', '' \<and>
   fst (parse_range ('', '' @ CHR ''-'' # ''1,0'')) = - 1 \<and>
   fst (parse_range_p0 (CHR ''-'' # ''1,0'')) = - 1"
  using range_encoder_lookup [of 7 "'', ''" "''1,0''" 0]
  by (simp add: separator_def isdigit_def)

section \<open>The example lines, evaluated\<close>

text \<open>Each line is evaluated under the evaluation of the arguments of \<^verbatim>\<open>ejday\<close> from left
  to right and from right to left.\<close>

lemma parser_line_sell:
  "parser left_to_right line_sell = Some (rec_sell 1137319200 1137324600)"
  "parser right_to_left line_sell = Some (rec_sell 2903943840 2903949240)"
  by code_simp+


lemma parser_line_bid2:
  "parser left_to_right line_bid2 = Some (rec_bid2 1137319200 1137324600)"
  "parser right_to_left line_bid2 = Some (rec_bid2 2903943840 2903949240)"
  by code_simp+

lemma parser_line_late:
  "parser left_to_right line_late = Some (rec_late 1137319200 1137317400)"
  "parser right_to_left line_late = Some (rec_late 2903943840 2903942040)"
  by code_simp+

lemma parser_line_frac:
  "parser left_to_right line_frac = Some (rec_frac 1137319200 3263363234)"
  "parser right_to_left line_frac = Some (rec_frac 2903943840 3294812834)"
  by code_simp+

lemma parser_line_minus:
  "parser left_to_right line_minus = Some (rec_minus 1137319200 3263363234)"
  "parser right_to_left line_minus = Some (rec_minus 2903943840 3294812834)"
  by code_simp+

lemma parser_p0_sell:
  "parser_p0 left_to_right p0_sell = Some (p0_rec_sell 1133308800 1164844800)"
  "parser_p0 right_to_left p0_sell = Some (p0_rec_sell 2427930240 2428016640)"
  by code_simp+


lemma parser_p0_bid2:
  "parser_p0 left_to_right p0_bid2 = Some (p0_rec_bid2 1133308800 1164844800)"
  "parser_p0 right_to_left p0_bid2 = Some (p0_rec_bid2 2427930240 2428016640)"
  by code_simp+

lemma parser_p0_late:
  "parser_p0 left_to_right p0_late = Some (p0_rec_sell 1164844800 1133308800)"
  "parser_p0 right_to_left p0_late = Some (p0_rec_sell 2428016640 2427930240)"
  by code_simp+

lemma parser_p0_range7:
  "parser_p0 left_to_right p0_range7 = Some (p0_rec_range7 1133308800 1164844800)"
  "parser_p0 right_to_left p0_range7 = Some (p0_rec_range7 2427930240 2428016640)"
  by code_simp+

lemma parse_line_bid2:
  "parse left_to_right line_bid2 = Some (0, rec_bid2 1137319200 1137324600)"
  "parse right_to_left line_bid2 = Some (0, rec_bid2 2903943840 2903949240)"
  by code_simp+

lemma parse_pt_line_bid2:
  "parse_pt left_to_right line_bid2 = Some (0, rec_bid2 1137348000 1137353400)"
  "parse_pt right_to_left line_bid2 = Some (0, rec_bid2 2903969040 2903974440)"
  by code_simp+

lemma parse_pt_bo_line_late:
  "parse_pt_bo left_to_right line_late
     = Some (1, (rec_late 1137319200 1137317400)\<lparr>range_b := - 1\<rparr>)"
  "parse_pt_bo right_to_left line_late
     = Some (1, (rec_late 2903943840 2903942040)\<lparr>range_b := - 1\<rparr>)"
  by code_simp+

lemma parse_pt_line_late:
  "parse_pt left_to_right line_late = Some (1, rec_late 1137319200 1137317400)"
  "parse_pt right_to_left line_late = Some (1, rec_late 2903943840 2903942040)"
  by code_simp+

lemma parse_p0_bid2:
  "parse_p0 left_to_right p0_bid2 = Some (2, p0_rec_bid2 1133308800 1164844800)"
  "parse_p0 right_to_left p0_bid2 = Some (2, p0_rec_bid2 2427930240 2428016640)"
  by code_simp+

lemma parse_pt_bo_p0_bid2:
  "parse_pt_bo_p0 left_to_right p0_bid2 = Some (2, p0_rec_bid2 1133337600 1164873600)"
  "parse_pt_bo_p0 right_to_left p0_bid2 = Some (2, p0_rec_bid2 2427955440 2428041840)"
  by code_simp+

lemma parse_pt_p0_late:
  "parse_pt_p0 left_to_right p0_late = Some (1, p0_rec_sell 1164873600 1133337600)"
  "parse_pt_p0 right_to_left p0_late = Some (1, p0_rec_sell 2428041840 2427955440)"
  by code_simp+

lemma parse_p0_range7:
  "parse_p0 left_to_right p0_range7 = Some (3, p0_rec_range7 1133308800 1164844800)"
  "parse_p0 right_to_left p0_range7 = Some (3, p0_rec_range7 2427930240 2428016640)"
  by code_simp+

lemma cursor_at_range_line_minus:
  "cursor_at_range left_to_right line_minus = Some '',-1,0,2006-01-15 11:30:00''"
  "cursor_at_range right_to_left line_minus = Some '',-1,0,2006-01-15 11:30:00''"
  by code_simp+

lemma timestamp_after_minus:
  "timestamp Year_month_day '',0,2006-01-15 11:30:00'' = (3263363234, '':00'')"
  "timestamp Day_month_year '',0,2006-01-15 11:30:00'' = (3294812834, '':00'')"
  by code_simp+

section \<open>Validation and the per-line entry points\<close>

lemma bid_gt_1: "(1 < (b :: uint8_t)) = (b \<noteq> 0 \<and> b \<noteq> 1)"
  by (auto simp: word_less_nat_alt word_unat_eq_iff)

lemma has_badval_invalid_bid:
  "bid r \<noteq> 0 \<Longrightarrow> bid r \<noteq> 1 \<Longrightarrow> has_badval r = (if rtime r < issued r then 1 else 2)"
  by (simp add: has_badval_def bid_gt_1)

lemma has_badval_values: "has_badval r \<in> {0, 1, 2, 3}"
  by (simp add: has_badval_def)

text \<open>
  C1, as the code has it. In \<^verbatim>\<open>eve_parser.c\<close>, \<^verbatim>\<open>parse_pt_bo\<close> returns status 1, and
  the record as assembled, for every line whose assembled \<open>bid\<close> is neither 0 nor 1. In
  \<^verbatim>\<open>part_000\<close> each of the three entry points returns a status other than 0 for such a
  line: 1 when \<open>issued\<close> exceeds \<open>rtime\<close> in the record as validated (after the timezone
  correction in \<^verbatim>\<open>parse_pt_bo\<close> and \<^verbatim>\<open>parse_pt\<close>), and 2 otherwise. This holds
  whatever the order of evaluation of the arguments of \<^verbatim>\<open>ejday\<close>.
\<close>

theorem invalid_bid_rejected:
  "(parser ords s = Some r \<and> bid r \<noteq> 0 \<and> bid r \<noteq> 1 \<longrightarrow> parse_pt_bo ords s = Some (1, r)) \<and>
   (parser_p0 ords' s' = Some r' \<and> bid r' \<noteq> 0 \<and> bid r' \<noteq> 1 \<longrightarrow>
      map_option fst (parse_pt_bo_p0 ords' s')
        = Some (if pt_to_utc (rtime r') < pt_to_utc (issued r') then 1 else 2) \<and>
      map_option fst (parse_pt_p0 ords' s')
        = Some (if pt_to_utc (rtime r') < pt_to_utc (issued r') then 1 else 2) \<and>
      map_option fst (parse_p0 ords' s') = Some (if rtime r' < issued r' then 1 else 2))"
  by (simp add: parse_pt_bo_def parse_pt_bo_p0_def parse_pt_p0_def parse_p0_def
      has_badval_invalid_bid bid_gt_1)

theorem invalid_bid_rejected_witness:
  "parser right_to_left line_bid2 = Some (rec_bid2 2903943840 2903949240) \<and>
   bid (rec_bid2 2903943840 2903949240) \<noteq> 0 \<and> bid (rec_bid2 2903943840 2903949240) \<noteq> 1 \<and>
   parse_pt_bo right_to_left line_bid2 = Some (1, rec_bid2 2903943840 2903949240) \<and>
   parser_p0 right_to_left p0_bid2 = Some (p0_rec_bid2 2427930240 2428016640) \<and>
   bid (p0_rec_bid2 2427930240 2428016640) \<noteq> 0 \<and>
   bid (p0_rec_bid2 2427930240 2428016640) \<noteq> 1 \<and>
   map_option fst (parse_pt_bo_p0 right_to_left p0_bid2) = Some 2 \<and>
   map_option fst (parse_pt_p0 right_to_left p0_bid2) = Some 2 \<and>
   map_option fst (parse_p0 right_to_left p0_bid2) = Some 2 \<and>
   parser left_to_right line_bid2 = Some (rec_bid2 1137319200 1137324600) \<and>
   parse_pt_bo left_to_right line_bid2 = Some (1, rec_bid2 1137319200 1137324600) \<and>
   parser_p0 left_to_right p0_bid2 = Some (p0_rec_bid2 1133308800 1164844800) \<and>
   map_option fst (parse_pt_bo_p0 left_to_right p0_bid2) = Some 2 \<and>
   map_option fst (parse_pt_p0 left_to_right p0_bid2) = Some 2 \<and>
   map_option fst (parse_p0 left_to_right p0_bid2) = Some 2"
  using
    invalid_bid_rejected [of right_to_left line_bid2 "rec_bid2 2903943840 2903949240"
      right_to_left p0_bid2 "p0_rec_bid2 2427930240 2428016640"]
    invalid_bid_rejected [of left_to_right line_bid2 "rec_bid2 1137319200 1137324600"
      left_to_right p0_bid2 "p0_rec_bid2 1133308800 1164844800"]
  by (simp add: parser_line_bid2 parser_p0_bid2 rec_bid2_def rec_sell_def p0_rec_bid2_def
      p0_rec_sell_def pt_to_utc_cases)

text \<open>
  C1 as stated fails: on a line with \<open>bid = 2\<close>, \<^verbatim>\<open>parse\<close> and \<^verbatim>\<open>parse_pt\<close> of
  \<^verbatim>\<open>eve_parser.c\<close>, which do not look at \<open>bid\<close>, return status 0, and \<^verbatim>\<open>parse\<close> of
  \<^verbatim>\<open>part_000\<close> returns status 2, under either order of evaluation.
\<close>

theorem bid2_not_status_1:
  "map_option bid (parser right_to_left line_bid2) = Some 2 \<and>
   map_option fst (parse right_to_left line_bid2) = Some 0 \<and>
   map_option fst (parse_pt right_to_left line_bid2) = Some 0 \<and>
   map_option bid (parser_p0 right_to_left p0_bid2) = Some 2 \<and>
   map_option fst (parse_p0 right_to_left p0_bid2) = Some 2 \<and>
   map_option bid (parser left_to_right line_bid2) = Some 2 \<and>
   map_option fst (parse left_to_right line_bid2) = Some 0 \<and>
   map_option fst (parse_pt left_to_right line_bid2) = Some 0 \<and>
   map_option bid (parser_p0 left_to_right p0_bid2) = Some 2 \<and>
   map_option fst (parse_p0 left_to_right p0_bid2) = Some 2"
  by (simp add: parser_line_bid2 parse_line_bid2 parse_pt_line_bid2 parser_p0_bid2 parse_p0_bid2
      rec_bid2_def p0_rec_bid2_def)

text \<open>
  C3, as the code has it. In \<^verbatim>\<open>eve_parser.c\<close>, \<^verbatim>\<open>parse_pt_bo\<close> and \<^verbatim>\<open>parse_pt\<close>
  return either status 1 with \<open>issued\<close> and \<open>rtime\<close> as assembled, or status 0 with both
  corrected by \<^verbatim>\<open>pt_to_utc\<close>. In \<^verbatim>\<open>part_000\<close> both entry points correct \<open>issued\<close> and
  \<open>rtime\<close> on every line, before the validation and whatever its outcome. This holds
  whatever the order of evaluation of the arguments of \<^verbatim>\<open>ejday\<close>.
\<close>

theorem correction_only_when_valid:
  "(parser ords s = Some r \<longrightarrow>
      (\<exists>st rec. parse_pt_bo ords s = Some (st, rec) \<and>
         (st = 1 \<and> issued rec = issued r \<and> rtime rec = rtime r \<or>
          st = 0 \<and> issued rec = pt_to_utc (issued r) \<and> rtime rec = pt_to_utc (rtime r))) \<and>
      (\<exists>st rec. parse_pt ords s = Some (st, rec) \<and>
         (st = 1 \<and> issued rec = issued r \<and> rtime rec = rtime r \<or>
          st = 0 \<and> issued rec = pt_to_utc (issued r) \<and> rtime rec = pt_to_utc (rtime r)))) \<and>
   (parser_p0 ords' s' = Some r' \<longrightarrow>
      (\<exists>st rec. parse_pt_bo_p0 ords' s' = Some (st, rec) \<and>
         issued rec = pt_to_utc (issued r') \<and> rtime rec = pt_to_utc (rtime r')) \<and>
      (\<exists>st rec. parse_pt_p0 ords' s' = Some (st, rec) \<and>
         issued rec = pt_to_utc (issued r') \<and> rtime rec = pt_to_utc (rtime r')))"
  by (simp add: parse_pt_bo_def parse_pt_def parse_pt_bo_p0_def parse_pt_p0_def Let_def)

theorem correction_only_when_valid_witness:
  "parser right_to_left line_late = Some (rec_late 2903943840 2903942040) \<and>
   parse_pt_bo right_to_left line_late
     = Some (1, (rec_late 2903943840 2903942040)\<lparr>range_b := - 1\<rparr>) \<and>
   parse_pt right_to_left line_late = Some (1, rec_late 2903943840 2903942040) \<and>
   parser_p0 right_to_left p0_late = Some (p0_rec_sell 2428016640 2427930240) \<and>
   (\<exists>st rec. parse_pt_bo_p0 right_to_left p0_late = Some (st, rec) \<and>
      issued rec = pt_to_utc 2428016640 \<and> rtime rec = pt_to_utc 2427930240) \<and>
   (\<exists>st rec. parse_pt_p0 right_to_left p0_late = Some (st, rec) \<and>
      issued rec = pt_to_utc 2428016640 \<and> rtime rec = pt_to_utc 2427930240) \<and>
   parser left_to_right line_late = Some (rec_late 1137319200 1137317400) \<and>
   parse_pt_bo left_to_right line_late
     = Some (1, (rec_late 1137319200 1137317400)\<lparr>range_b := - 1\<rparr>) \<and>
   parse_pt left_to_right line_late = Some (1, rec_late 1137319200 1137317400) \<and>
   parser_p0 left_to_right p0_late = Some (p0_rec_sell 1164844800 1133308800) \<and>
   (\<exists>st rec. parse_pt_bo_p0 left_to_right p0_late = Some (st, rec) \<and>
      issued rec = pt_to_utc 1164844800 \<and> rtime rec = pt_to_utc 1133308800) \<and>
   (\<exists>st rec. parse_pt_p0 left_to_right p0_late = Some (st, rec) \<and>
      issued rec = pt_to_utc 1164844800 \<and> rtime rec = pt_to_utc 1133308800)"
  using
    correction_only_when_valid [of right_to_left line_late "rec_late 2903943840 2903942040"
      right_to_left p0_late "p0_rec_sell 2428016640 2427930240"]
    correction_only_when_valid [of left_to_right line_late "rec_late 1137319200 1137317400"
      left_to_right p0_late "p0_rec_sell 1164844800 1133308800"]
  by (simp add: parser_line_late parser_p0_late parse_pt_bo_line_late parse_pt_line_late
      p0_rec_sell_def)

text \<open>
  C3 as stated fails for \<^verbatim>\<open>part_000\<close>: on a line whose report precedes the issue,
  \<^verbatim>\<open>parse_pt\<close> returns status 1 and timestamps shifted by the correction (by seven
  hours when the arguments of \<^verbatim>\<open>ejday\<close> are evaluated from right to left, by eight when
  from left to right).
\<close>

theorem p0_corrects_rejected_line:
  "map_option issued (parser_p0 right_to_left p0_late) = Some 2428016640 \<and>
   map_option rtime (parser_p0 right_to_left p0_late) = Some 2427930240 \<and>
   map_option fst (parse_pt_p0 right_to_left p0_late) = Some 1 \<and>
   map_option (issued \<circ> snd) (parse_pt_p0 right_to_left p0_late) = Some 2428041840 \<and>
   map_option (rtime \<circ> snd) (parse_pt_p0 right_to_left p0_late) = Some 2427955440 \<and>
   map_option issued (parser_p0 left_to_right p0_late) = Some 1164844800 \<and>
   map_option rtime (parser_p0 left_to_right p0_late) = Some 1133308800 \<and>
   map_option fst (parse_pt_p0 left_to_right p0_late) = Some 1 \<and>
   map_option (issued \<circ> snd) (parse_pt_p0 left_to_right p0_late) = Some 1164873600 \<and>
   map_option (rtime \<circ> snd) (parse_pt_p0 left_to_right p0_late) = Some 1133337600"
  by (simp add: parser_p0_late parse_pt_p0_late p0_rec_sell_def)

section \<open>Where the assembler of \<^verbatim>\<open>eve_parser.c\<close> is defined\<close>

lemma suffix_skip_nondigits: "suffix (skip_nondigits s) s"
  by (induction s) (simp_all add: suffix_Cons)

lemma suffix_scan_digits: "suffix (snd (scan_digits v s)) s"
  by (induction s arbitrary: v) (simp_all add: suffix_Cons)

lemma suffix_scan: "suffix (snd (scan_digits v (skip_nondigits s))) s"
  using suffix_scan_digits suffix_skip_nondigits suffix_order.trans by blast

lemma suffix_parse:
  "suffix (snd (parse_uint64 s)) s" "suffix (snd (parse_uint32 s)) s" "suffix (snd (parse_int s)) s"
  by (simp_all add: parse_uint64_def parse_uint32_def parse_int_def suffix_scan)

lemma cents_None: "cents str = None \<longleftrightarrow> str = ''.''"
  by (cases str) (auto simp: cents_def peek_def Let_def split: list.splits)

lemma suffix_point: "suffix ''.'' s \<Longrightarrow> ends_with_point s"
  by (auto simp: suffix_def ends_with_point_def)

text \<open>The assembler has a record for every line that does not end in a point.\<close>

lemma parser_defined:
  assumes "\<not> ends_with_point s"
  shows "\<exists>r. parser ords s = Some r"
proof -
  define str7 where "str7 = snd (parse_uint64 (snd (parse_int (snd (parse_uint32 (snd (parse_uint32
      (snd (parse_uint32 (snd (parse_uint32 (snd (parse_uint64 s)))))))))))))"
  have "suffix str7 s"
    unfolding str7_def by (meson suffix_parse suffix_order.trans)
  then have "str7 \<noteq> ''.''"
    using assms suffix_point by blast
  then obtain v str8 where c: "cents str7 = Some (v, str8)"
    using cents_None [of str7] by (cases "cents str7") auto
  show ?thesis
    using c unfolding str7_def by (simp add: parser_def Let_def split_def)
qed

lemma line_sell_no_point: "\<not> ends_with_point line_sell"
  by (simp add: ends_with_point_def line_sell_def)

text \<open>
  C5, as the code has it. The entry points of \<^verbatim>\<open>eve_parser.c\<close> return status 0 or 1
  and nothing else, on every line the assembler has a record for, which is every line
  that does not end in a point. The entry points of \<^verbatim>\<open>part_000\<close> return the value of
  \<^verbatim>\<open>has_badval\<close>: 0, 1, 2 or 3. This holds whatever the order of evaluation of the
  arguments of \<^verbatim>\<open>ejday\<close>.
\<close>

theorem status_values:
  "(\<not> ends_with_point s \<longrightarrow> (\<exists>r. parser ords s = Some r)) \<and>
   (parser ords s = Some r \<longrightarrow>
      map_option fst (parse_pt_bo ords s) \<in> {Some 0, Some 1} \<and>
      map_option fst (parse_pt ords s) \<in> {Some 0, Some 1} \<and>
      map_option fst (parse ords s) \<in> {Some 0, Some 1}) \<and>
   (parser_p0 ords' s' = Some r' \<longrightarrow>
      map_option fst (parse_pt_bo_p0 ords' s') \<in> {Some 0, Some 1, Some 2, Some 3} \<and>
      map_option fst (parse_pt_p0 ords' s') \<in> {Some 0, Some 1, Some 2, Some 3} \<and>
      map_option fst (parse_p0 ords' s') \<in> {Some 0, Some 1, Some 2, Some 3})"
  using parser_defined [of s ords]
  by (simp add: parse_pt_bo_def parse_pt_def parse_def parse_pt_bo_p0_def parse_pt_p0_def
      parse_p0_def Let_def has_badval_def)

theorem status_values_witness:
  "\<not> ends_with_point line_sell \<and>
   parser right_to_left line_sell = Some (rec_sell 2903943840 2903949240) \<and>
   map_option fst (parse_pt_bo right_to_left line_sell) \<in> {Some 0, Some 1} \<and>
   map_option fst (parse_pt right_to_left line_sell) \<in> {Some 0, Some 1} \<and>
   map_option fst (parse right_to_left line_sell) \<in> {Some 0, Some 1} \<and>
   parser_p0 right_to_left p0_sell = Some (p0_rec_sell 2427930240 2428016640) \<and>
   map_option fst (parse_pt_bo_p0 right_to_left p0_sell) \<in> {Some 0, Some 1, Some 2, Some 3} \<and>
   map_option fst (parse_pt_p0 right_to_left p0_sell) \<in> {Some 0, Some 1, Some 2, Some 3} \<and>
   map_option fst (parse_p0 right_to_left p0_sell) \<in> {Some 0, Some 1, Some 2, Some 3} \<and>
   parser left_to_right line_sell = Some (rec_sell 1137319200 1137324600) \<and>
   map_option fst (parse_pt_bo left_to_right line_sell) \<in> {Some 0, Some 1} \<and>
   map_option fst (parse_pt left_to_right line_sell) \<in> {Some 0, Some 1} \<and>
   map_option fst (parse left_to_right line_sell) \<in> {Some 0, Some 1} \<and>
   parser_p0 left_to_right p0_sell = Some (p0_rec_sell 1133308800 1164844800) \<and>
   map_option fst (parse_pt_bo_p0 left_to_right p0_sell) \<in> {Some 0, Some 1, Some 2, Some 3} \<and>
   map_option fst (parse_pt_p0 left_to_right p0_sell) \<in> {Some 0, Some 1, Some 2, Some 3} \<and>
   map_option fst (parse_p0 left_to_right p0_sell) \<in> {Some 0, Some 1, Some 2, Some 3}"
  using
    status_values [of line_sell right_to_left "rec_sell 2903943840 2903949240"
      right_to_left p0_sell "p0_rec_sell 2427930240 2428016640"]
    status_values [of line_sell left_to_right "rec_sell 1137319200 1137324600"
      left_to_right p0_sell "p0_rec_sell 1133308800 1164844800"]
  by (simp add: parser_line_sell parser_p0_sell line_sell_no_point)

text \<open>
  C5 as stated fails for \<^verbatim>\<open>part_000\<close>: a line with the range 7 is returned with status
  3, a line with \<open>bid = 2\<close> with status 2, under either order of evaluation.
\<close>

theorem p0_status_2_and_3:
  "map_option fst (parse_p0 right_to_left p0_range7) = Some 3 \<and>
   map_option fst (parse_pt_bo_p0 right_to_left p0_bid2) = Some 2 \<and>
   map_option fst (parse_p0 left_to_right p0_range7) = Some 3 \<and>
   map_option fst (parse_pt_bo_p0 left_to_right p0_bid2) = Some 2"
  by (simp add: parse_p0_range7 parse_pt_bo_p0_bid2)

section \<open>Buy orders of Epoch A\<close>



text \<open>What \<^verbatim>\<open>parse_datetime\<close> of \<^verbatim>\<open>part_000\<close> assembles: only the first number of the
  field enters the timestamp.\<close>

lemma parse_uint64_p0_nondigit: "\<not> isdigit (peek s) \<Longrightarrow> parse_uint64_p0 s = (0, s)"
  by (cases s) (simp_all add: parse_uint64_p0_def peek_def)










section \<open>The minus sign of the range field in \<^verbatim>\<open>eve_parser.c\<close>\<close>

lemma parse_uint64_after_minus:
  assumes "\<forall>c\<in>set pre. separator c \<and> c \<noteq> CHR ''-''" and "ds \<noteq> []"
    and "\<forall>c\<in>set ds. isdigit c" and "\<not> isdigit (peek rest)"
  shows "parse_uint64 (pre @ CHR ''-'' # ds @ rest) = (of_nat (decimal ds), rest)"
proof -
  have "\<forall>c\<in>set (pre @ ''-''). separator c"
    using assms(1) by (auto simp: separator_def isdigit_def)
  then have "parse_uint64 ((pre @ ''-'') @ ds @ rest) = (of_nat (decimal ds), rest)"
    using assms(2-4) by (rule parse_uint64_field)
  then show ?thesis by simp
qed

text \<open>The assembler has a record exactly when the cursor reaches the range field, and the
  last three fields of the record are scanned from that cursor on.\<close>

lemma parser_from_range_cursor:
  "cursor_at_range ords s = Some c \<Longrightarrow>
     \<exists>r. parser ords s = Some r \<and> range_b r = fst (parse_range c) \<and>
       reportedby r = fst (parse_uint64 (snd (parse_range c))) \<and>
       rtime r = fst (timestamp (snd ords) (snd (parse_uint64 (snd (parse_range c)))))"
  by (auto simp: parser_def cursor_at_range_def Let_def split_def split: option.splits)

lemma range_cursor_defined:
  "(\<exists>r. parser ords s = Some r) = (\<exists>c. cursor_at_range ords s = Some c)"
  by (auto simp: parser_def cursor_at_range_def Let_def split_def split: option.splits)

text \<open>
  C10. In \<^verbatim>\<open>eve_parser.c\<close>, on every line where the text at the cursor of the range
  field shows a minus sign before any digit, \<^verbatim>\<open>parse_range\<close> returns \<open>-1\<close> and the
  caller's cursor is where it was: neither the separators before the sign nor the sign
  are consumed. The scan of \<open>reportedby\<close> that follows skips them and takes the digits
  after the sign: the record has the range \<open>-1\<close>, its \<open>reportedby\<close> is the number after the
  sign, and its \<open>rtime\<close> is assembled from the text that follows this number, which begins
  with the field meant for \<open>reportedby\<close>. This holds whatever the order of evaluation of
  the arguments of \<^verbatim>\<open>ejday\<close>.
\<close>

theorem parse_range_minus_keeps_cursor:
  "cursor_at_range ords s = Some (pre @ CHR ''-'' # ds @ rest) \<and>
   (\<forall>c\<in>set pre. separator c \<and> c \<noteq> CHR ''-'') \<and> ds \<noteq> [] \<and> (\<forall>c\<in>set ds. isdigit c) \<and>
   \<not> isdigit (peek rest) \<longrightarrow>
     parse_range (pre @ CHR ''-'' # ds @ rest) = (- 1, pre @ CHR ''-'' # ds @ rest) \<and>
     parse_uint64 (pre @ CHR ''-'' # ds @ rest) = (of_nat (decimal ds), rest) \<and>
     (\<exists>r. parser ords s = Some r \<and> range_b r = - 1 \<and> reportedby r = of_nat (decimal ds) \<and>
        rtime r = fst (timestamp (snd ords) rest))"
proof
  assume h: "cursor_at_range ords s = Some (pre @ CHR ''-'' # ds @ rest) \<and>
    (\<forall>c\<in>set pre. separator c \<and> c \<noteq> CHR ''-'') \<and> ds \<noteq> [] \<and> (\<forall>c\<in>set ds. isdigit c) \<and>
    \<not> isdigit (peek rest)"
  let ?c = "pre @ CHR ''-'' # ds @ rest"
  have r: "parse_range ?c = (- 1, ?c)"
    using h parse_range_minus [of pre "ds @ rest"] by blast
  have u: "parse_uint64 ?c = (of_nat (decimal ds), rest)"
    using h parse_uint64_after_minus [of pre ds rest] by blast
  obtain rec where "parser ords s = Some rec" "range_b rec = fst (parse_range ?c)"
    "reportedby rec = fst (parse_uint64 (snd (parse_range ?c)))"
    "rtime rec = fst (timestamp (snd ords) (snd (parse_uint64 (snd (parse_range ?c)))))"
    using h parser_from_range_cursor [of ords s ?c] by blast
  then have "parser ords s = Some rec \<and> range_b rec = - 1 \<and>
      reportedby rec = of_nat (decimal ds) \<and> rtime rec = fst (timestamp (snd ords) rest)"
    by (simp add: r u)
  then show "parse_range ?c = (- 1, ?c) \<and> parse_uint64 ?c = (of_nat (decimal ds), rest) \<and>
      (\<exists>r. parser ords s = Some r \<and> range_b r = - 1 \<and> reportedby r = of_nat (decimal ds) \<and>
         rtime r = fst (timestamp (snd ords) rest))"
    using r u by blast
qed

theorem parse_range_minus_keeps_cursor_witness:
  "cursor_at_range right_to_left line_minus = Some '',-1,0,2006-01-15 11:30:00'' \<and>
   list_all (\<lambda>c. separator c \<and> c \<noteq> CHR ''-'') '','' \<and> ''1'' \<noteq> [] \<and> list_all isdigit ''1'' \<and>
   \<not> isdigit (peek '',0,2006-01-15 11:30:00'') \<and>
   parse_range '',-1,0,2006-01-15 11:30:00'' = (- 1, '',-1,0,2006-01-15 11:30:00'') \<and>
   parse_uint64 '',-1,0,2006-01-15 11:30:00'' = (1, '',0,2006-01-15 11:30:00'') \<and>
   (\<exists>r. parser right_to_left line_minus = Some r \<and> range_b r = - 1 \<and> reportedby r = 1 \<and>
      rtime r = 3294812834) \<and>
   cursor_at_range left_to_right line_minus = Some '',-1,0,2006-01-15 11:30:00'' \<and>
   (\<exists>r. parser left_to_right line_minus = Some r \<and> range_b r = - 1 \<and> reportedby r = 1 \<and>
      rtime r = 3263363234)"
  using
    parse_range_minus_keeps_cursor [of right_to_left line_minus "'',''" "''1''"
      "'',0,2006-01-15 11:30:00''"]
    parse_range_minus_keeps_cursor [of left_to_right line_minus "'',''" "''1''"
      "'',0,2006-01-15 11:30:00''"]
  by (simp add: cursor_at_range_line_minus timestamp_after_minus separator_def isdigit_def
      peek_def decimal_def digit_value_def)

section \<open>Rounding of fractional seconds\<close>

text \<open>In \<^verbatim>\<open>eve_parser.c\<close> the test for the first fractional digit follows the scan of the
  seconds at once. The scan stops on a byte that is not a digit, so the test fails
  always and the timestamp is never rounded.\<close>

lemma timestamp_unrounded:
  "timestamp ord str0 =
     (let (a, str1) = parse_int str0;
          (b, str2) = parse_int str1;
          (c, str3) = parse_int str2;
          (hour, str4) = parse_int str3;
          (minute, str5) = parse_int str4;
          (second, str6) = parse_int str5
      in (ejday_scanned ord a b c + hour * SEC_PER_HOUR + minute * SEC_PER_MIN + second, str6))"
proof -
  have "\<not> isdigit (peek (snd (parse_int s)))" for s
    by (rule parse_int_stops)
  then show ?thesis
    by (simp add: timestamp_def Let_def split_def)
qed

text \<open>\<^verbatim>\<open>parse_datetime\<close> of \<^verbatim>\<open>part_000\<close> has the test after the point: on the value it has
  assembled from the digits before the point, a first fractional digit above 5 adds one
  second, and the other fractional digits are skipped.\<close>

lemma skip_digits_run:
  "\<forall>c\<in>set ds. isdigit c \<Longrightarrow> \<not> isdigit (peek rest) \<Longrightarrow> skip_digits (ds @ rest) = rest"
  by (induction ds) (auto simp: peek_def split: list.splits)

lemma parse_datetime_p0_rounds:
  assumes "\<forall>c\<in>set ys. isdigit c" and "isdigit f" and "\<forall>c\<in>set fs. isdigit c"
    and "\<not> isdigit (peek rest)"
  shows "parse_datetime_p0 ord (ys @ CHR ''.'' # f # fs @ rest)
           = (ejday_scanned ord (of_nat (decimal ys)) 0 0
                + (if 5 < digit_value f then 1 else 0), rest)"
proof -
  let ?s = "CHR ''.'' # f # fs @ rest"
  have nd: "\<not> isdigit (peek ?s)" by (simp add: peek_def isdigit_def)
  have y: "parse_uint64_p0 (ys @ ?s) = (of_nat (decimal ys), ?s)"
    unfolding parse_uint64_p0_def using assms(1) nd by (rule scan_digits_decimal)
  have z: "parse_uint64_p0 ?s = (0, ?s)"
    using nd by (rule parse_uint64_p0_nondigit)
  have sk: "skip_digits (fs @ rest) = rest"
    using assms(3,4) by (rule skip_digits_run)
  have "48 \<le> (of_char f :: nat)" "(of_char f :: nat) \<le> 57"
    using assms(2) by (simp_all add: isdigit_of_char)
  moreover have "(of_char f :: int) = int (of_char f :: nat)"
    by (simp add: of_nat_of_char)
  ultimately have d: "(53 < char_int f) = (5 < digit_value f)"
    by (simp add: char_int_def digit_value_def) linarith
  have u: "(ucast (of_nat n :: uint64_t) :: uint32_t) = of_nat n" for n
    by (rule bit_word_eqI) (auto simp: bit_simps)
  show ?thesis
    by (simp add: parse_datetime_p0_def y z sk d u SEC_PER_HOUR_def SEC_PER_MIN_def Let_def
        peek_def assms(2))
qed

text \<open>
  C2 at a line of \<^verbatim>\<open>eve_parser.c\<close> whose two timestamps end in \<open>.9\<close>, under the evaluation
  of the arguments of \<^verbatim>\<open>ejday\<close> from right to left and from left to right: \<open>issued\<close> is
  the value assembled from 2006-01-15 10:00:00 without the second of the rounding, the
  same as on the line without fractions; the fractional digit of \<open>issued\<close> is read as the
  duration, and the fields after it are read out of place.
\<close>

theorem fraction_not_rounded:
  "parser right_to_left line_frac = Some (rec_frac 2903943840 3294812834) \<and>
   (2903943840 :: uint32_t) = ejday 15 1 2006 + 10 * SEC_PER_HOUR + 0 * SEC_PER_MIN + 0 \<and>
   map_option issued (parser right_to_left line_frac)
     = map_option issued (parser right_to_left line_sell) \<and>
   parser left_to_right line_frac = Some (rec_frac 1137319200 3263363234) \<and>
   (1137319200 :: uint32_t) = ejday 2006 1 15 + 10 * SEC_PER_HOUR + 0 * SEC_PER_MIN + 0 \<and>
   map_option issued (parser left_to_right line_frac)
     = map_option issued (parser left_to_right line_sell) \<and>
   issued (rec_frac i t) = i \<and> duration (rec_frac i t) = 9 \<and> range_b (rec_frac i t) = 0 \<and>
   reportedby (rec_frac i t) = 32767"
  by (simp add: parser_line_frac parser_line_sell rec_frac_def rec_sell_def ejday_def
      E_JDAY_def SEC_PER_DAY_def SEC_PER_HOUR_def SEC_PER_MIN_def)

section \<open>Epoch-day encoder and format dispatcher\<close>

lemma ejday_values:
  "ejday 2007 1 1 = 1167609600" "ejday 2007 2 1 = 1170201600" "ejday 2007 3 1 = 1172880000"
  "ejday 2007 10 1 = 1191369600" "ejday 2008 1 1 = 1199232000"
  "ejday 2006 12 29 = 1167523200" "ejday 2006 12 30 = 1167609600" "ejday 2006 12 31 = 1167696000"
  by (simp_all add: ejday_def E_JDAY_def SEC_PER_DAY_def)

text \<open>In every year the encoder gives 1 February the value of 31 January.\<close>

lemma ejday_february: "ejday y 2 1 = ejday y 1 31"
  by (simp add: ejday_def)

lemma gregorian_values:
  "gregorian_epoch_seconds 2007 1 1 = 1167609600" "gregorian_epoch_seconds 2007 1 31 = 1170201600"
  "gregorian_epoch_seconds 2007 2 1 = 1170288000" "gregorian_epoch_seconds 2007 3 1 = 1172707200"
  "gregorian_epoch_seconds 2007 10 1 = 1191196800" "gregorian_epoch_seconds 2008 1 1 = 1199145600"
  "gregorian_epoch_seconds 2006 12 31 = 1167523200"
  by code_simp+

text \<open>
  C4 at 2007-02-01 and other valid dates. \<^verbatim>\<open>ejday\<close> gives 1167609600 for 2007-01-01, as
  the calendar does. For 2007-02-01 it gives 1170201600, which is the midnight of
  2007-01-31; the calendar gives 1170288000. It is two days late for 2007-03-01 and for
  2007-10-01, and one day late for 2008-01-01.
\<close>

theorem ejday_not_gregorian:
  "uint (ejday 2007 1 1) = 1167609600 \<and> gregorian_epoch_seconds 2007 1 1 = 1167609600 \<and>
   uint (ejday 2007 2 1) = 1170201600 \<and> gregorian_epoch_seconds 2007 2 1 = 1170288000 \<and>
   gregorian_epoch_seconds 2007 1 31 = 1170201600 \<and>
   uint (ejday 2007 3 1) = 1172880000 \<and> gregorian_epoch_seconds 2007 3 1 = 1172707200 \<and>
   uint (ejday 2007 10 1) = 1191369600 \<and> gregorian_epoch_seconds 2007 10 1 = 1191196800 \<and>
   uint (ejday 2008 1 1) = 1199232000 \<and> gregorian_epoch_seconds 2008 1 1 = 1199145600"
  by (simp add: ejday_values gregorian_values)

text \<open>The dispatcher compares the encoded date with the two constants.\<close>

lemma parser_factory_cases:
  "parser_factory yr mn dy =
     (if ejday yr mn dy < 1167609600 then Parse_pt_bo
      else if ejday yr mn dy < 1191369600 then Parse_pt else Parse)"
  by (simp add: parser_factory_def D20070101_def D20071001_def Let_def word_less_alt
      uint_up_ucast is_up)

text \<open>
  C8 at the end of 2006. \<^verbatim>\<open>parser_factory\<close> yields \<^verbatim>\<open>parse_pt\<close> for 2007-01-01 and
  \<^verbatim>\<open>parse\<close> for 2007-10-01. It yields \<^verbatim>\<open>parse_pt_bo\<close> for 2006-12-29, but
  \<^verbatim>\<open>parse_pt\<close> for 2006-12-30 and 2006-12-31, two dates before 2007-01-01:
  \<^verbatim>\<open>ejday\<close> encodes 2006-12-31 above 2007-01-01.
\<close>

theorem parser_factory_end_of_2006:
  "parser_factory 2006 12 29 = Parse_pt_bo \<and>
   parser_factory 2006 12 30 = Parse_pt \<and>
   parser_factory 2006 12 31 = Parse_pt \<and>
   parser_factory 2007 1 1 = Parse_pt \<and>
   parser_factory 2007 10 1 = Parse \<and>
   ejday 2007 1 1 < ejday 2006 12 31"
  by (simp add: parser_factory_cases ejday_values)

end
